theory Spec2Isabelle
  imports Main
begin

section \<open>Python values, exceptions and results\<close>

text \<open>
  The connector handles dynamically typed data: predicate values handed in by the host,
  keyword arguments of backend calls, the dictionaries the backend answers with, and the
  values stored in rows. \<open>PBody\<close> is the streaming body object found under the
  \<open>payload\<close> key of a shadow response; \<open>PBytes\<close> is what reading it gives.
\<close>

datatype pyval =
    PNone
  | PStr string
  | PInt int
  | PBytes string
  | PBody string
  | PList "pyval list"
  | PDict "(string \<times> pyval) list"

text \<open>Truth value of an object in a condition (\<open>if x:\<close>, \<open>while x:\<close>).\<close>

fun truthy :: "pyval \<Rightarrow> bool" where
  "truthy PNone = False"
| "truthy (PStr s) = (s \<noteq> [])"
| "truthy (PInt i) = (i \<noteq> 0)"
| "truthy (PBytes b) = (b \<noteq> [])"
| "truthy (PBody b) = True"
| "truthy (PList xs) = (xs \<noteq> [])"
| "truthy (PDict d) = (d \<noteq> [])"

datatype exn =
    ClientError string
  | TypeError
  | AttributeError
  | NotImplementedError
  | ReportedError
  | OtherException string

datatype 'a res = Return 'a | Raise exn

text \<open>\<open>d.get(k)\<close> on a dictionary: the stored value, or \<open>None\<close>.\<close>

definition dict_get :: "(string \<times> pyval) list \<Rightarrow> string \<Rightarrow> pyval" where
  "dict_get d k = (case map_of d k of None \<Rightarrow> PNone | Some v \<Rightarrow> v)"

text \<open>\<open>x.get(k)\<close> on any object: only a dictionary has the method.\<close>

fun py_get :: "pyval \<Rightarrow> string \<Rightarrow> pyval res" where
  "py_get (PDict d) k = Return (dict_get d k)"
| "py_get PNone k = Raise AttributeError"
| "py_get (PStr s) k = Raise AttributeError"
| "py_get (PInt i) k = Raise AttributeError"
| "py_get (PBytes b) k = Raise AttributeError"
| "py_get (PBody b) k = Raise AttributeError"
| "py_get (PList xs) k = Raise AttributeError"

text \<open>A streaming body iterates in chunks of 1024 bytes.\<close>

function chunks :: "string \<Rightarrow> string list" where
  "chunks b = (if b = [] then [] else take 1024 b # chunks (drop 1024 b))"
  by pat_completeness auto
termination
  by (relation "measure length") auto

text \<open>The items a \<open>for\<close> loop (or \<open>list.extend\<close>) draws from an object.\<close>

fun py_iter :: "pyval \<Rightarrow> pyval list res" where
  "py_iter (PList xs) = Return xs"
| "py_iter (PStr s) = Return (map (\<lambda>c. PStr [c]) s)"
| "py_iter (PBytes b) = Return (map (\<lambda>c. PInt (of_char c)) b)"
| "py_iter (PBody b) = Return (map PBytes (chunks b))"
| "py_iter (PDict d) = Return (map (\<lambda>kv. PStr (fst kv)) d)"
| "py_iter PNone = Raise TypeError"
| "py_iter (PInt i) = Raise TypeError"

text \<open>\<open>x.read()\<close>: only the streaming body has the method.\<close>

fun py_read :: "pyval \<Rightarrow> pyval res" where
  "py_read (PBody b) = Return (PBytes b)"
| "py_read PNone = Raise AttributeError"
| "py_read (PStr s) = Raise AttributeError"
| "py_read (PInt i) = Raise AttributeError"
| "py_read (PBytes b) = Raise AttributeError"
| "py_read (PList xs) = Raise AttributeError"
| "py_read (PDict d) = Raise AttributeError"

text \<open>The slice \<open>x[:-1]\<close>: all but the last element of a sequence.\<close>

fun py_slice_butlast :: "pyval \<Rightarrow> pyval res" where
  "py_slice_butlast (PStr s) = Return (PStr (butlast s))"
| "py_slice_butlast (PBytes b) = Return (PBytes (butlast b))"
| "py_slice_butlast (PList xs) = Return (PList (butlast xs))"
| "py_slice_butlast PNone = Raise TypeError"
| "py_slice_butlast (PInt i) = Raise TypeError"
| "py_slice_butlast (PBody b) = Raise TypeError"
| "py_slice_butlast (PDict d) = Raise TypeError"

text \<open>\<open>s.lower()\<close>, \<open>s.endswith(c)\<close> and \<open>s.count(c)\<close> for a one-character \<open>c\<close>,
  on strings of 8-bit characters.\<close>

definition lower_char :: "char \<Rightarrow> char" where
  "lower_char c =
     (case map_of (zip ''ABCDEFGHIJKLMNOPQRSTUVWXYZ'' ''abcdefghijklmnopqrstuvwxyz'') c of
        None \<Rightarrow> c
      | Some l \<Rightarrow> l)"

definition lower :: "string \<Rightarrow> string" where
  "lower s = map lower_char s"

definition endswith :: "string \<Rightarrow> char \<Rightarrow> bool" where
  "endswith s c = (s \<noteq> [] \<and> last s = c)"

definition str_count :: "string \<Rightarrow> char \<Rightarrow> nat" where
  "str_count s c = count_list s c"

section \<open>The host, the backend and the state of a run\<close>

text \<open>
  A predicate of the query layer. An operator that is not a plain string (the pair the
  host uses for \<open>ANY\<close>/\<open>ALL\<close>) equals neither \<open>=\<close> nor \<open>~~\<close>, so it behaves like any
  other operator string.
\<close>

record qual =
  field_name :: string
  operator :: string
  qvalue :: pyval

datatype level = WARNING | ERROR

datatype fmtarg = Val pyval | Exn exn

text \<open>A message is a format string with the arguments of its \<open>format\<close> call.\<close>

type_synonym message = "string \<times> fmtarg list"

datatype api =
    ListThings
  | ListThingTypes
  | ListThingGroups
  | ListThingGroupsForThing
  | GetThingShadow
  | UpdateThingShadow
  | CreateThing
  | DeleteThing

text \<open>A backend call: the operation and its keyword arguments, in the order given.\<close>

type_synonym request = "api \<times> (string \<times> pyval) list"

datatype reply = Response "(string \<times> pyval) list" | Raises exn

text \<open>
  The surroundings of the connector. The backend answers a call as a function of all calls
  made so far, the current one last, so that it may keep state of its own. \<open>dumps\<close> and
  \<open>dumps_default_str\<close> are the JSON serialiser without and with \<open>default=str\<close>;
  \<open>None\<close> is its \<open>TypeError\<close> on an object it cannot serialise.
\<close>

record env =
  respond :: "request list \<Rightarrow> reply"
  dumps :: "pyval \<Rightarrow> string option"
  dumps_default_str :: "pyval \<Rightarrow> string option"

type_synonym row = "string \<rightharpoonup> pyval"

text \<open>What a run leaves behind: the backend calls made, the messages handed to the host's
  log, and the rows yielded to the host, each oldest first.\<close>

record st =
  calls :: "request list"
  logged :: "(level \<times> message) list"
  yielded :: "row list"

definition call :: "env \<Rightarrow> api \<Rightarrow> (string \<times> pyval) list \<Rightarrow> st \<Rightarrow> reply \<times> st" where
  "call e a args s = (let cs = calls s @ [(a, args)] in (respond e cs, s\<lparr>calls := cs\<rparr>))"

definition yield :: "row \<Rightarrow> st \<Rightarrow> st" where
  "yield r s = s\<lparr>yielded := yielded s @ [r]\<rparr>"

text \<open>
  The host's logging function. A message of level \<open>ERROR\<close> is reported to the host as an
  error of the running statement: the call does not return but raises, which ends the
  query or mutation unless a handler further out catches it. A \<open>WARNING\<close> returns.
\<close>

definition log_to_postgres :: "message \<Rightarrow> level \<Rightarrow> st \<Rightarrow> unit res \<times> st" where
  "log_to_postgres msg lvl s =
     (let s' = s\<lparr>logged := logged s @ [(lvl, msg)]\<rparr>
      in case lvl of WARNING \<Rightarrow> (Return (), s') | ERROR \<Rightarrow> (Raise ReportedError, s'))"

text \<open>
  The pair of handlers every \<open>try\<close> of the module ends with: \<open>except ClientError\<close>
  logs its own message at its own level, \<open>except Exception\<close> logs
  \<open>Unknown error\<close> as an error.
\<close>

definition handlers :: "string \<Rightarrow> fmtarg list \<Rightarrow> level \<Rightarrow> exn \<Rightarrow> st \<Rightarrow> unit res \<times> st" where
  "handlers fmt args lvl e s =
     (case e of
        ClientError ce \<Rightarrow> log_to_postgres (fmt, args @ [Exn e]) lvl s
      | _ \<Rightarrow> log_to_postgres (''Unknown error {}'', [Exn e]) ERROR s)"

section \<open>The connector instance\<close>

definition MAX_RESULTS :: int where
  "MAX_RESULTS = 250"

definition LIKE_WILDCARD :: char where
  "LIKE_WILDCARD = CHR ''%''"

record fdw =
  table_type :: string
  row_id_column :: string

text \<open>
  Construction (\<open>__init__\<close>). The two backend clients are built by the SDK from the
  options and are not part of this module; what the constructor decides itself is the table
  kind and the name of the identity column, and it reports a missing region or credential,
  or an unsupported kind, as an error. The report of an unsupported kind does not return,
  so the last branch below is never reached: an instance always has its identity column.
  Methods whose names start with an underscore in the source have the same names here
  without it.
\<close>

definition require :: "(string \<rightharpoonup> string) \<Rightarrow> string \<Rightarrow> string \<Rightarrow> st \<Rightarrow> unit res \<times> st" where
  "require fdw_options key msg s =
     (if fdw_options key = None then log_to_postgres (msg, []) ERROR s else (Return (), s))"

definition init :: "(string \<rightharpoonup> string) \<Rightarrow> st \<Rightarrow> fdw res \<times> st" where
  "init fdw_options s =
     (let tt = (case fdw_options ''table_type'' of None \<Rightarrow> ''thing'' | Some t \<Rightarrow> t) in
      case require fdw_options ''region'' ''Please set the AWS region'' s of
        (Raise e, s1) \<Rightarrow> (Raise e, s1)
      | (Return u1, s1) \<Rightarrow>
      (case require fdw_options ''aws_access_key'' ''Please set the AWS access key'' s1 of
        (Raise e, s2) \<Rightarrow> (Raise e, s2)
      | (Return u2, s2) \<Rightarrow>
      (case require fdw_options ''aws_secret_key'' ''Please set the AWS secret key'' s2 of
        (Raise e, s3) \<Rightarrow> (Raise e, s3)
      | (Return u3, s3) \<Rightarrow>
        if ''thing'' = lower tt then
          (Return \<lparr>table_type = tt, row_id_column = ''thing_name''\<rparr>, s3)
        else if ''thing-type'' = lower tt then
          (Return \<lparr>table_type = tt, row_id_column = ''thing_type_name''\<rparr>, s3)
        else if ''thing-group'' = lower tt then
          (Return \<lparr>table_type = tt, row_id_column = ''thing_group_name''\<rparr>, s3)
        else
          (case log_to_postgres
                  (''This FDW does not support table_type {}'', [Val (PStr tt)]) ERROR s3 of
             (Raise e, s4) \<Rightarrow> (Raise e, s4)
           | (Return u4, s4) \<Rightarrow> (Raise AttributeError, s4)))))"

definition rowid_column :: "fdw \<Rightarrow> string" where
  "rowid_column self = row_id_column self"

definition get_path_keys :: "fdw \<Rightarrow> (string list \<times> nat) list" where
  "get_path_keys self = [([row_id_column self], 1)]"

text \<open>The columns \<open>import_schema\<close> declares for each table kind, by the kind's option.\<close>

definition import_schema :: "(string \<times> string list) list" where
  "import_schema =
     [(''thing'', [''thing_name'', ''thing_type_name'', ''thing_arn'', ''thing_version'',
                   ''thing_groups'', ''thing_attributes'', ''thing_shadow_data'']),
      (''thing-type'', [''thing_type_name'', ''thing_type_arn'', ''thing_type_properties'',
                        ''thing_type_metadata'']),
      (''thing-group'', [''thing_group_name'', ''thing_group_arn''])]"

section \<open>Scans\<close>

text \<open>
  The keyword arguments of a list call, which each of the three loops builds in the same
  way at the start of an iteration: the page-size cap, the cursor when there is one,
  the filter when there is one.
\<close>

definition list_call_args :: "pyval \<Rightarrow> string \<Rightarrow> pyval \<Rightarrow> (string \<times> pyval) list" where
  "list_call_args nextToken filter_key filter_value =
     [(''maxResults'', PInt MAX_RESULTS)]
     @ (if truthy nextToken then [(''nextToken'', nextToken)] else [])
     @ (if truthy filter_value then [(filter_key, filter_value)] else [])"

subsection \<open>Thing groups\<close>

definition thing_group_prefix_step :: "pyval \<Rightarrow> qual \<Rightarrow> pyval res" where
  "thing_group_prefix_step thing_group_prefix q =
     (if lower (field_name q) = ''thing_group_name'' then
        if operator q = ''='' then Return (qvalue q)
        else if operator q = ''~~'' \<and> str_count (field_name q) LIKE_WILDCARD = 1
                \<and> endswith (field_name q) LIKE_WILDCARD
        then py_slice_butlast (qvalue q)
        else Return thing_group_prefix
      else Return thing_group_prefix)"

fun thing_group_prefix_scan :: "pyval \<Rightarrow> qual list \<Rightarrow> pyval res" where
  "thing_group_prefix_scan thing_group_prefix [] = Return thing_group_prefix"
| "thing_group_prefix_scan thing_group_prefix (q # quals) =
     (case thing_group_prefix_step thing_group_prefix q of
        Raise e \<Rightarrow> Raise e
      | Return p \<Rightarrow> thing_group_prefix_scan p quals)"

definition thing_group_row :: "fdw \<Rightarrow> string set \<Rightarrow> pyval \<Rightarrow> row res" where
  "thing_group_row self columns thing_type =
     (case py_get thing_type ''groupName'' of
        Raise e \<Rightarrow> Raise e
      | Return thing_type_name \<Rightarrow>
          if ''thing_group_arn'' \<in> columns then
            (case py_get thing_type ''groupArn'' of
               Raise e \<Rightarrow> Raise e
             | Return arn \<Rightarrow>
                 Return ([row_id_column self \<mapsto> thing_type_name, ''thing_group_arn'' \<mapsto> arn]))
          else Return [row_id_column self \<mapsto> thing_type_name])"

fun thing_group_rows :: "fdw \<Rightarrow> string set \<Rightarrow> pyval list \<Rightarrow> st \<Rightarrow> unit res \<times> st" where
  "thing_group_rows self columns [] s = (Return (), s)"
| "thing_group_rows self columns (thing_type # rest) s =
     (case thing_group_row self columns thing_type of
        Raise e \<Rightarrow> (Raise e, s)
      | Return r \<Rightarrow> thing_group_rows self columns rest (yield r s))"

text \<open>
  The \<open>while True\<close> loop, one iteration per unit of fuel; \<open>None\<close> when the fuel runs
  out before the loop ends.
\<close>

fun thing_group_pages ::
  "nat \<Rightarrow> env \<Rightarrow> fdw \<Rightarrow> string set \<Rightarrow> pyval \<Rightarrow> pyval \<Rightarrow> st \<Rightarrow> (unit res \<times> st) option" where
  "thing_group_pages 0 e self columns thing_group_prefix nextToken s = None"
| "thing_group_pages (Suc n) e self columns thing_group_prefix nextToken s =
     (case call e ListThingGroups
             (list_call_args nextToken ''namePrefixFilter'' thing_group_prefix) s of
        (Raises ex, s1) \<Rightarrow> Some (Raise ex, s1)
      | (Response response, s1) \<Rightarrow>
          (case py_iter (dict_get response ''thingGroups'') of
             Raise ex \<Rightarrow> Some (Raise ex, s1)
           | Return items \<Rightarrow>
               (case thing_group_rows self columns items s1 of
                  (Raise ex, s2) \<Rightarrow> Some (Raise ex, s2)
                | (Return u, s2) \<Rightarrow>
                    if \<not> truthy (dict_get response ''nextToken'') then Some (Return (), s2)
                    else thing_group_pages n e self columns thing_group_prefix
                           (dict_get response ''nextToken'') s2)))"

definition execute_thing_group ::
  "nat \<Rightarrow> env \<Rightarrow> fdw \<Rightarrow> qual list \<Rightarrow> string set \<Rightarrow> st \<Rightarrow> (unit res \<times> st) option" where
  "execute_thing_group n e self quals columns s =
     (case thing_group_prefix_scan PNone quals of
        Raise ex \<Rightarrow> Some (Raise ex, s)
      | Return thing_group_prefix \<Rightarrow>
          (case thing_group_pages n e self columns thing_group_prefix PNone s of
             None \<Rightarrow> None
           | Some (Return u, s1) \<Rightarrow> Some (Return (), s1)
           | Some (Raise ex, s1) \<Rightarrow>
               Some (handlers ''No thing groups from IoT core with ClientError {}'' [] ERROR
                       ex s1)))"

subsection \<open>Thing types and things: the type-name filter\<close>

definition type_name_step :: "pyval \<Rightarrow> qual \<Rightarrow> pyval" where
  "type_name_step thing_type_name q =
     (if lower (field_name q) = ''thing_type_name'' then
        if operator q = ''='' then qvalue q else thing_type_name
      else thing_type_name)"

definition type_name_scan :: "qual list \<Rightarrow> pyval" where
  "type_name_scan quals = foldl type_name_step PNone quals"

subsection \<open>Thing types\<close>

definition bind_res :: "'a res \<Rightarrow> ('a \<Rightarrow> 'b res) \<Rightarrow> 'b res" where
  "bind_res r f = (case r of Raise e \<Rightarrow> Raise e | Return x \<Rightarrow> f x)"

definition py_dumps :: "(pyval \<Rightarrow> string option) \<Rightarrow> pyval \<Rightarrow> pyval res" where
  "py_dumps d v = (case d v of None \<Rightarrow> Raise TypeError | Some j \<Rightarrow> Return (PStr j))"

text \<open>\<open>if k in columns: row.update({k: v})\<close>, where computing \<open>v\<close> may raise.\<close>

definition set_col :: "string set \<Rightarrow> string \<Rightarrow> pyval res \<Rightarrow> row \<Rightarrow> row res" where
  "set_col columns k v r =
     (if k \<in> columns then bind_res v (\<lambda>x. Return (r(k \<mapsto> x))) else Return r)"

text \<open>One item of a page of thing types: the name it assigns to \<open>thing_type_name\<close>, and
  the row.\<close>

definition thing_type_row :: "env \<Rightarrow> fdw \<Rightarrow> string set \<Rightarrow> pyval \<Rightarrow> (pyval \<times> row) res" where
  "thing_type_row e self columns thing_type =
     bind_res (py_get thing_type ''thingTypeName'') (\<lambda>thing_type_name.
     bind_res (set_col columns ''thing_type_arn'' (py_get thing_type ''thingTypeArn'')
                 [row_id_column self \<mapsto> thing_type_name]) (\<lambda>r1.
     bind_res (set_col columns ''thing_type_properties''
                 (bind_res (py_get thing_type ''thingTypeProperties'') (py_dumps (dumps e)))
                 r1) (\<lambda>r2.
     bind_res (set_col columns ''thing_type_metadata''
                 (bind_res (py_get thing_type ''thingTypeMetadata'')
                    (py_dumps (dumps_default_str e)))
                 r2) (\<lambda>r3.
     Return (thing_type_name, r3)))))"

text \<open>The \<open>for\<close> loop over a page. The loop variable \<open>thing_type_name\<close> is the variable
  that holds the filter, so the loop hands back its last value.\<close>

fun thing_type_rows ::
  "env \<Rightarrow> fdw \<Rightarrow> string set \<Rightarrow> pyval list \<Rightarrow> pyval \<Rightarrow> st \<Rightarrow> pyval res \<times> st" where
  "thing_type_rows e self columns [] thing_type_name s = (Return thing_type_name, s)"
| "thing_type_rows e self columns (thing_type # rest) thing_type_name s =
     (case thing_type_row e self columns thing_type of
        Raise ex \<Rightarrow> (Raise ex, s)
      | Return (name, r) \<Rightarrow> thing_type_rows e self columns rest name (yield r s))"

fun thing_type_pages ::
  "nat \<Rightarrow> env \<Rightarrow> fdw \<Rightarrow> string set \<Rightarrow> pyval \<Rightarrow> pyval \<Rightarrow> st \<Rightarrow> (unit res \<times> st) option" where
  "thing_type_pages 0 e self columns thing_type_name nextToken s = None"
| "thing_type_pages (Suc n) e self columns thing_type_name nextToken s =
     (case call e ListThingTypes
             (list_call_args nextToken ''thingTypeName'' thing_type_name) s of
        (Raises ex, s1) \<Rightarrow> Some (Raise ex, s1)
      | (Response response, s1) \<Rightarrow>
          (case py_iter (dict_get response ''thingTypes'') of
             Raise ex \<Rightarrow> Some (Raise ex, s1)
           | Return items \<Rightarrow>
               (case thing_type_rows e self columns items thing_type_name s1 of
                  (Raise ex, s2) \<Rightarrow> Some (Raise ex, s2)
                | (Return name, s2) \<Rightarrow>
                    if \<not> truthy (dict_get response ''nextToken'') then Some (Return (), s2)
                    else thing_type_pages n e self columns name
                           (dict_get response ''nextToken'') s2)))"

definition execute_thing_type ::
  "nat \<Rightarrow> env \<Rightarrow> fdw \<Rightarrow> qual list \<Rightarrow> string set \<Rightarrow> st \<Rightarrow> (unit res \<times> st) option" where
  "execute_thing_type n e self quals columns s =
     (case thing_type_pages n e self columns (type_name_scan quals) PNone s of
        None \<Rightarrow> None
      | Some (Return u, s1) \<Rightarrow> Some (Return (), s1)
      | Some (Raise ex, s1) \<Rightarrow>
          Some (handlers ''No thing types from IoT core with ClientError {}'' [] ERROR ex s1))"

subsection \<open>Things\<close>

text \<open>\<open>groups.extend(extra)\<close>: only a list has the method, and it takes any iterable.\<close>

fun py_extend :: "pyval \<Rightarrow> pyval \<Rightarrow> pyval res" where
  "py_extend (PList groups) extra = bind_res (py_iter extra) (\<lambda>xs. Return (PList (groups @ xs)))"
| "py_extend PNone extra = Raise AttributeError"
| "py_extend (PStr s) extra = Raise AttributeError"
| "py_extend (PInt i) extra = Raise AttributeError"
| "py_extend (PBytes b) extra = Raise AttributeError"
| "py_extend (PBody b) extra = Raise AttributeError"
| "py_extend (PDict d) extra = Raise AttributeError"

text \<open>The \<open>while nextToken\<close> loop of the group lookup, one test of the condition per
  unit of fuel.\<close>

fun thing_groups_more ::
  "nat \<Rightarrow> env \<Rightarrow> pyval \<Rightarrow> pyval \<Rightarrow> pyval \<Rightarrow> st \<Rightarrow> (pyval res \<times> st) option" where
  "thing_groups_more 0 e thing groups nextToken s = None"
| "thing_groups_more (Suc n) e thing groups nextToken s =
     (if \<not> truthy nextToken then Some (Return groups, s)
      else
        (case call e ListThingGroupsForThing
                [(''thingName'', thing), (''maxResults'', PInt MAX_RESULTS),
                 (''nextToken'', nextToken)] s of
           (Raises ex, s1) \<Rightarrow> Some (Raise ex, s1)
         | (Response response, s1) \<Rightarrow>
             (case py_extend groups (dict_get response ''thingGroups'') of
                Raise ex \<Rightarrow> Some (Raise ex, s1)
              | Return groups' \<Rightarrow>
                  thing_groups_more n e thing groups' (dict_get response ''nextToken'') s1)))"

text \<open>The handlers of a secondary lookup: a backend-reported failure is a warning, after
  which the lookup returns \<open>None\<close>.\<close>

definition lookup_failed :: "string \<Rightarrow> pyval \<Rightarrow> exn \<Rightarrow> st \<Rightarrow> pyval res \<times> st" where
  "lookup_failed fmt thing ex s =
     (case handlers fmt [Val thing] WARNING ex s of
        (Raise ex', s') \<Rightarrow> (Raise ex', s')
      | (Return u, s') \<Rightarrow> (Return PNone, s'))"

definition thing_groups_for_thing ::
  "nat \<Rightarrow> env \<Rightarrow> pyval \<Rightarrow> st \<Rightarrow> (pyval res \<times> st) option" where
  "thing_groups_for_thing n e thing s =
     (let failed =
            lookup_failed ''No thing groups from IoT core for thing {} with ClientError {}''
              thing
      in case call e ListThingGroupsForThing
                [(''thingName'', thing), (''maxResults'', PInt MAX_RESULTS)] s of
           (Raises ex, s1) \<Rightarrow> Some (failed ex s1)
         | (Response response, s1) \<Rightarrow>
             (case thing_groups_more n e thing (dict_get response ''thingGroups'')
                     (dict_get response ''nextToken'') s1 of
                None \<Rightarrow> None
              | Some (Raise ex, s2) \<Rightarrow> Some (failed ex s2)
              | Some (Return groups, s2) \<Rightarrow>
                  (case py_dumps (dumps e) groups of
                     Raise ex \<Rightarrow> Some (failed ex s2)
                   | Return j \<Rightarrow> Some (Return j, s2))))"

definition thing_shadow_data :: "env \<Rightarrow> pyval \<Rightarrow> st \<Rightarrow> pyval res \<times> st" where
  "thing_shadow_data e thing s =
     (let failed = lookup_failed ''No data in IoT shadow for thing {} with ClientError {}'' thing
      in case call e GetThingShadow [(''thingName'', thing)] s of
           (Raises ex, s1) \<Rightarrow> failed ex s1
         | (Response shadow, s1) \<Rightarrow>
             if truthy (dict_get shadow ''payload'') then
               (case py_read (dict_get shadow ''payload'') of
                  Raise ex \<Rightarrow> failed ex s1
                | Return data \<Rightarrow> (Return data, s1))
             else (Return PNone, s1))"

text \<open>The columns of a thing row that are read off the item itself, in the order of the
  source.\<close>

definition thing_item_cols :: "env \<Rightarrow> string set \<Rightarrow> pyval \<Rightarrow> row \<Rightarrow> row res" where
  "thing_item_cols e columns thing r =
     bind_res (set_col columns ''thing_type_name'' (py_get thing ''thingTypeName'') r) (\<lambda>r1.
     bind_res (set_col columns ''thing_arn'' (py_get thing ''thingArn'') r1) (\<lambda>r2.
     bind_res (set_col columns ''thing_version'' (py_get thing ''version'') r2) (\<lambda>r3.
     set_col columns ''thing_attributes''
       (bind_res (py_get thing ''attributes'') (py_dumps (dumps e))) r3)))"

text \<open>The row of a thing is built in three steps: the identity and the group
  memberships, the columns read off the item, the shadow document.\<close>

definition row_with_groups ::
  "nat \<Rightarrow> env \<Rightarrow> fdw \<Rightarrow> string set \<Rightarrow> pyval \<Rightarrow> st \<Rightarrow> (row res \<times> st) option" where
  "row_with_groups n e self columns thing_name s =
     (if ''thing_groups'' \<in> columns then
        (case thing_groups_for_thing n e thing_name s of
           None \<Rightarrow> None
         | Some (Raise ex, s1) \<Rightarrow> Some (Raise ex, s1)
         | Some (Return groups, s1) \<Rightarrow>
             Some (Return ([row_id_column self \<mapsto> thing_name, ''thing_groups'' \<mapsto> groups]),
                   s1))
      else Some (Return [row_id_column self \<mapsto> thing_name], s))"

definition row_with_shadow :: "env \<Rightarrow> string set \<Rightarrow> pyval \<Rightarrow> row \<Rightarrow> st \<Rightarrow> row res \<times> st" where
  "row_with_shadow e columns thing_name r s =
     (if ''thing_shadow_data'' \<in> columns then
        (case thing_shadow_data e thing_name s of
           (Raise ex, s1) \<Rightarrow> (Raise ex, s1)
         | (Return data, s1) \<Rightarrow> (Return (r(''thing_shadow_data'' \<mapsto> data)), s1))
      else (Return r, s))"

definition thing_row ::
  "nat \<Rightarrow> env \<Rightarrow> fdw \<Rightarrow> string set \<Rightarrow> pyval \<Rightarrow> st \<Rightarrow> (row res \<times> st) option" where
  "thing_row n e self columns thing s =
     (case py_get thing ''thingName'' of
        Raise ex \<Rightarrow> Some (Raise ex, s)
      | Return thing_name \<Rightarrow>
          (case row_with_groups n e self columns thing_name s of
             None \<Rightarrow> None
           | Some (Raise ex, s1) \<Rightarrow> Some (Raise ex, s1)
           | Some (Return r1, s1) \<Rightarrow>
               (case thing_item_cols e columns thing r1 of
                  Raise ex \<Rightarrow> Some (Raise ex, s1)
                | Return r2 \<Rightarrow> Some (row_with_shadow e columns thing_name r2 s1))))"

fun thing_rows ::
  "nat \<Rightarrow> env \<Rightarrow> fdw \<Rightarrow> string set \<Rightarrow> pyval list \<Rightarrow> st \<Rightarrow> (unit res \<times> st) option" where
  "thing_rows n e self columns [] s = Some (Return (), s)"
| "thing_rows n e self columns (thing # rest) s =
     (case thing_row n e self columns thing s of
        None \<Rightarrow> None
      | Some (Raise ex, s1) \<Rightarrow> Some (Raise ex, s1)
      | Some (Return r, s1) \<Rightarrow> thing_rows n e self columns rest (yield r s1))"

text \<open>The scan of things. The group lookups of a page run on the fuel the scan has when it
  reaches the page.\<close>

fun thing_pages ::
  "nat \<Rightarrow> env \<Rightarrow> fdw \<Rightarrow> string set \<Rightarrow> pyval \<Rightarrow> pyval \<Rightarrow> st \<Rightarrow> (unit res \<times> st) option" where
  "thing_pages 0 e self columns thing_type_name nextToken s = None"
| "thing_pages (Suc n) e self columns thing_type_name nextToken s =
     (case call e ListThings (list_call_args nextToken ''thingTypeName'' thing_type_name) s of
        (Raises ex, s1) \<Rightarrow> Some (Raise ex, s1)
      | (Response response, s1) \<Rightarrow>
          (case py_iter (dict_get response ''things'') of
             Raise ex \<Rightarrow> Some (Raise ex, s1)
           | Return items \<Rightarrow>
               (case thing_rows (Suc n) e self columns items s1 of
                  None \<Rightarrow> None
                | Some (Raise ex, s2) \<Rightarrow> Some (Raise ex, s2)
                | Some (Return u, s2) \<Rightarrow>
                    if \<not> truthy (dict_get response ''nextToken'') then Some (Return (), s2)
                    else thing_pages n e self columns thing_type_name
                           (dict_get response ''nextToken'') s2)))"

definition execute_thing ::
  "nat \<Rightarrow> env \<Rightarrow> fdw \<Rightarrow> qual list \<Rightarrow> string set \<Rightarrow> st \<Rightarrow> (unit res \<times> st) option" where
  "execute_thing n e self quals columns s =
     (case thing_pages n e self columns (type_name_scan quals) PNone s of
        None \<Rightarrow> None
      | Some (Return u, s1) \<Rightarrow> Some (Return (), s1)
      | Some (Raise ex, s1) \<Rightarrow>
          Some (handlers ''No things from IoT core with ClientError {}'' [] ERROR ex s1))"

definition execute ::
  "nat \<Rightarrow> env \<Rightarrow> fdw \<Rightarrow> qual list \<Rightarrow> string set \<Rightarrow> st \<Rightarrow> (unit res \<times> st) option" where
  "execute n e self quals columns s =
     (if ''thing'' = lower (table_type self) then execute_thing n e self quals columns s
      else if ''thing-type'' = lower (table_type self) then
        execute_thing_type n e self quals columns s
      else if ''thing-group'' = lower (table_type self) then
        execute_thing_group n e self quals columns s
      else Some (Return (), s))"

section \<open>Mutations\<close>

text \<open>\<open>values.get(k)\<close> on the mapping from column names to values the host passes.\<close>

definition values_get :: "row \<Rightarrow> string \<Rightarrow> pyval" where
  "values_get vals k = (case vals k of None \<Rightarrow> PNone | Some v \<Rightarrow> v)"

text \<open>What follows a \<open>try\<close> whose handlers have run: the statement after it, unless the
  handler itself raised.\<close>

definition after_handlers :: "unit res \<times> st \<Rightarrow> 'a \<Rightarrow> 'a res \<times> st" where
  "after_handlers h x = (case h of (Raise ex, s) \<Rightarrow> (Raise ex, s) | (Return u, s) \<Rightarrow> (Return x, s))"

definition insert_thing_type :: "row \<Rightarrow> st \<Rightarrow> row option res \<times> st" where
  "insert_thing_type vals s = (Raise NotImplementedError, s)"

definition insert_thing :: "env \<Rightarrow> row \<Rightarrow> st \<Rightarrow> row option res \<times> st" where
  "insert_thing e vals s =
     (let new_thing = values_get vals ''thing_name'';
          new_thing_type = values_get vals ''thing_type''
      in case call e CreateThing
                (if truthy new_thing_type
                 then [(''thingName'', new_thing), (''thingTypeName'', new_thing_type)]
                 else [(''thingName'', new_thing)]) s of
           (Raises ex, s1) \<Rightarrow>
             after_handlers
               (handlers ''Insert failed in IoT shadow for thing {} with ClientError {}''
                  [Val new_thing] ERROR ex s1)
               (Some vals)
         | (Response response, s1) \<Rightarrow> (Return (Some vals), s1))"

definition insert_fdw :: "env \<Rightarrow> fdw \<Rightarrow> row \<Rightarrow> st \<Rightarrow> row option res \<times> st" where
  "insert_fdw e self vals s =
     (if ''thing'' = lower (table_type self) then insert_thing e vals s
      else if ''thing-type'' = lower (table_type self) then insert_thing_type vals s
      else (Return None, s))"

definition update_thing_type :: "pyval \<Rightarrow> row \<Rightarrow> st \<Rightarrow> row option res \<times> st" where
  "update_thing_type rowid newvalues s = (Raise NotImplementedError, s)"

definition update_thing :: "env \<Rightarrow> pyval \<Rightarrow> row \<Rightarrow> st \<Rightarrow> row option res \<times> st" where
  "update_thing e rowid newvalues s =
     (if ''thing_shadow_data'' \<in> dom newvalues then
        (let failed = (\<lambda>ex s'.
               after_handlers
                 (handlers ''Data update failed in IoT shadow for thing {} with ClientError {}''
                    [Val rowid] ERROR ex s')
                 (Some newvalues))
         in case call e UpdateThingShadow
                   [(''thingName'', rowid),
                    (''payload'', values_get newvalues ''thing_shadow_data'')] s of
              (Raises ex, s1) \<Rightarrow> failed ex s1
            | (Response shadow, s1) \<Rightarrow>
                if truthy (dict_get shadow ''payload'') then
                  (case py_read (dict_get shadow ''payload'') of
                     Raise ex \<Rightarrow> failed ex s1
                   | Return data \<Rightarrow>
                       (Return (Some (newvalues(''thing_shadow_data'' \<mapsto> data))), s1))
                else (Return (Some newvalues), s1))
      else (Return (Some newvalues), s))"

definition update_fdw :: "env \<Rightarrow> fdw \<Rightarrow> pyval \<Rightarrow> row \<Rightarrow> st \<Rightarrow> row option res \<times> st" where
  "update_fdw e self rowid newvalues s =
     (if ''thing'' = lower (table_type self) then update_thing e rowid newvalues s
      else if ''thing-type'' = lower (table_type self) then update_thing_type rowid newvalues s
      else (Return None, s))"

definition delete_thing_type :: "pyval \<Rightarrow> st \<Rightarrow> pyval res \<times> st" where
  "delete_thing_type rowid s = (Raise NotImplementedError, s)"

definition delete_thing :: "env \<Rightarrow> pyval \<Rightarrow> st \<Rightarrow> pyval res \<times> st" where
  "delete_thing e rowid s =
     (case call e DeleteThing [(''thingName'', rowid)] s of
        (Raises ex, s1) \<Rightarrow>
          after_handlers
            (handlers ''Delete failed in IoT shadow for thing {} with ClientError {}''
               [Val rowid] ERROR ex s1)
            PNone
      | (Response response, s1) \<Rightarrow> (Return PNone, s1))"

definition delete_fdw :: "env \<Rightarrow> fdw \<Rightarrow> pyval \<Rightarrow> st \<Rightarrow> pyval res \<times> st" where
  "delete_fdw e self rowid s =
     (if ''thing'' = lower (table_type self) then delete_thing e rowid s
      else if ''thing-type'' = lower (table_type self) then delete_thing_type rowid s
      else (Return PNone, s))"

section \<open>Example data\<close>

text \<open>A run starts with no call made, nothing logged and nothing yielded.\<close>

definition fresh :: st where
  "fresh = \<lparr>calls = [], logged = [], yielded = []\<rparr>"

text \<open>The three tables \<open>import_schema\<close> declares, as instances.\<close>

definition things_table :: fdw where
  "things_table = \<lparr>table_type = ''thing'', row_id_column = ''thing_name''\<rparr>"

definition thing_types_table :: fdw where
  "thing_types_table = \<lparr>table_type = ''thing-type'', row_id_column = ''thing_type_name''\<rparr>"

definition thing_groups_table :: fdw where
  "thing_groups_table = \<lparr>table_type = ''thing-group'', row_id_column = ''thing_group_name''\<rparr>"

text \<open>A backend that answers every call with an empty response.\<close>

definition quiet_backend :: env where
  "quiet_backend =
     \<lparr>respond = (\<lambda>cs. Response []),
      dumps = (\<lambda>v. Some ''null''),
      dumps_default_str = (\<lambda>v. Some ''null'')\<rparr>"

text \<open>A backend whose lists are all empty.\<close>

definition empty_backend :: env where
  "empty_backend =
     \<lparr>respond = (\<lambda>cs. Response [(''things'', PList []), (''thingTypes'', PList []),
                                 (''thingGroups'', PList [])]),
      dumps = (\<lambda>v. Some ''null''),
      dumps_default_str = (\<lambda>v. Some ''null'')\<rparr>"

text \<open>The predicate \<open>thing_group_name LIKE 'abc%'\<close>.\<close>

definition like_abc :: qual where
  "like_abc = \<lparr>field_name = ''thing_group_name'', operator = ''~~'', qvalue = PStr ''abc%''\<rparr>"


section \<open>What a run adds\<close>

text \<open>
  A run only ever appends to the calls and to the rows. \<open>grows P Q s s'\<close> says that
  \<open>s'\<close> continues \<open>s\<close> by calls that all satisfy \<open>P\<close> and rows that all satisfy
  \<open>Q\<close>.
\<close>

definition grows :: "(request \<Rightarrow> bool) \<Rightarrow> (row \<Rightarrow> bool) \<Rightarrow> st \<Rightarrow> st \<Rightarrow> bool" where
  "grows P Q s s' =
     (\<exists>cs rs. calls s' = calls s @ cs \<and> yielded s' = yielded s @ rs
              \<and> (\<forall>c\<in>set cs. P c) \<and> (\<forall>r\<in>set rs. Q r))"

text \<open>The columns of a thing row other than the identity, and the declared columns of a
  table kind.\<close>

definition thing_columns :: "string set" where
  "thing_columns = {''thing_type_name'', ''thing_arn'', ''thing_version'', ''thing_groups'',
                    ''thing_attributes'', ''thing_shadow_data''}"

definition declared_columns :: "string \<Rightarrow> string list" where
  "declared_columns kind = (case map_of import_schema kind of None \<Rightarrow> [] | Some cs \<Rightarrow> cs)"

text \<open>A backend with two things: \<open>d1\<close> has no shadow, which the backend reports as a
  failure; \<open>d2\<close> has one.\<close>

definition two_things_backend :: env where
  "two_things_backend =
     \<lparr>respond = (\<lambda>cs. case last cs of
          (ListThings, args) \<Rightarrow>
            Response [(''things'',
              PList [PDict [(''thingName'', PStr ''d1'')],
                     PDict [(''thingName'', PStr ''d2''), (''thingTypeName'', PStr ''sensor'')]])]
        | (GetThingShadow, args) \<Rightarrow>
            if map_of args ''thingName'' = Some (PStr ''d1'')
            then Raises (ClientError ''ResourceNotFoundException'')
            else Response [(''payload'', PBody ''on'')]
        | (ListThingGroupsForThing, args) \<Rightarrow> Response [(''thingGroups'', PList [])]
        | (a, args) \<Rightarrow> Response []),
      dumps = (\<lambda>v. Some ''null''),
      dumps_default_str = (\<lambda>v. Some ''null'')\<rparr>"

text \<open>The predicates \<open>thing_type_name = v\<close> and \<open>thing_name = v\<close>.\<close>

definition type_is :: "string \<Rightarrow> qual" where
  "type_is v = \<lparr>field_name = ''thing_type_name'', operator = ''='', qvalue = PStr v\<rparr>"

definition name_is :: "string \<Rightarrow> qual" where
  "name_is v = \<lparr>field_name = ''thing_name'', operator = ''='', qvalue = PStr v\<rparr>"

text \<open>A backend with two pages of thing types, one type on each.\<close>

definition two_type_pages :: env where
  "two_type_pages =
     \<lparr>respond = (\<lambda>cs. case map_of (snd (last cs)) ''nextToken'' of
          None \<Rightarrow> Response [(''thingTypes'', PList [PDict [(''thingTypeName'', PStr ''sensor'')]]),
                            (''nextToken'', PStr ''page2'')]
        | Some t \<Rightarrow> Response [(''thingTypes'', PList [PDict [(''thingTypeName'', PStr ''valve'')]])]),
      dumps = (\<lambda>v. Some ''null''),
      dumps_default_str = (\<lambda>v. Some ''null'')\<rparr>"

text \<open>A shadow lookup finds nothing: the backend reports a failure, or its answer has no
  payload.\<close>

definition shadow_absent :: "reply \<Rightarrow> bool" where
  "shadow_absent rep =
     (case rep of
        Raises ex \<Rightarrow> (case ex of ClientError ce \<Rightarrow> True | _ \<Rightarrow> False)
      | Response shadow \<Rightarrow> \<not> truthy (dict_get shadow ''payload''))"

text \<open>The state of a scan after its first list call.\<close>

definition after_list :: st where
  "after_list = \<lparr>calls = [(ListThings, [(''maxResults'', PInt 250)])], logged = [], yielded = []\<rparr>"




section \<open>Observing the pagination of a scan\<close>


fun list_exchanges ::
  "env \<Rightarrow> api \<Rightarrow> request list \<Rightarrow> request list \<Rightarrow> ((string \<times> pyval) list \<times> reply) list" where
  "list_exchanges e a h [] = []"
| "list_exchanges e a h (c # cs) =
     (if fst c = a then [(snd c, respond e (h @ [c]))] else [])
     @ list_exchanges e a (h @ [c]) cs"






section \<open>Properties\<close>

subsection \<open>Strings\<close>

lemma lower_char_percent: "lower_char CHR ''%'' = CHR ''%''"
  by (simp add: lower_char_def)

lemma lower_keeps_percent: "CHR ''%'' \<in> set s \<Longrightarrow> CHR ''%'' \<in> set (lower s)"
  unfolding lower_def using lower_char_percent by force

lemma group_name_has_no_wildcard:
  assumes "lower s = ''thing_group_name''"
  shows "CHR ''%'' \<notin> set s"
proof
  assume "CHR ''%'' \<in> set s"
  then have "CHR ''%'' \<in> set (lower s)" by (rule lower_keeps_percent)
  with assms show False by simp
qed

lemma lower_kinds:
  "lower ''thing'' = ''thing''" "lower ''thing-type'' = ''thing-type''"
  "lower ''thing-group'' = ''thing-group''"
  by (simp_all add: lower_def lower_char_def)

subsection \<open>Instances\<close>

text \<open>An instance the constructor returns is of one of the three kinds, with the identity
  column of that kind.\<close>

lemma require_cases:
  "require fdw_options key msg s = (Return u, s1) \<Longrightarrow> s1 = s"
  by (auto simp: require_def log_to_postgres_def split: if_splits)

lemma init_kinds:
  assumes "init fdw_options s = (Return self, s1)"
  shows "(lower (table_type self) = ''thing'' \<and> row_id_column self = ''thing_name'')
       \<or> (lower (table_type self) = ''thing-type'' \<and> row_id_column self = ''thing_type_name'')
       \<or> (lower (table_type self) = ''thing-group'' \<and> row_id_column self = ''thing_group_name'')"
proof -
  define tt where "tt = (case fdw_options ''table_type'' of None \<Rightarrow> ''thing'' | Some t \<Rightarrow> t)"
  define k where "k = lower tt"
  from assms have
    "(if ''thing'' = k then
          (Return \<lparr>table_type = tt, row_id_column = ''thing_name''\<rparr>, s1)
        else if ''thing-type'' = k then
          (Return \<lparr>table_type = tt, row_id_column = ''thing_type_name''\<rparr>, s1)
        else if ''thing-group'' = k then
          (Return \<lparr>table_type = tt, row_id_column = ''thing_group_name''\<rparr>, s1)
        else (Raise ReportedError, s1)) = (Return self, s1)"
    unfolding init_def tt_def [symmetric] k_def [symmetric] Let_def
    by (auto simp: log_to_postgres_def  split: prod.splits res.splits if_splits
        dest: require_cases)
  then consider "''thing'' = k" "self = \<lparr>table_type = tt, row_id_column = ''thing_name''\<rparr>"
    | "''thing-type'' = k" "self = \<lparr>table_type = tt, row_id_column = ''thing_type_name''\<rparr>"
    | "''thing-group'' = k" "self = \<lparr>table_type = tt, row_id_column = ''thing_group_name''\<rparr>"
    by (auto split: if_splits)
  then show ?thesis
    by cases (simp_all add: k_def)
qed

subsection \<open>Mutations of the unsupported kinds\<close>

text \<open>
  C9. On a thing-type table, insert, update and delete each raise
  \<open>NotImplementedError\<close>, and the state of the run is the one they started in: no
  backend call was made and nothing was logged.
\<close>

theorem thing_type_mutations_raise:
  assumes "''thing-type'' = lower (table_type self)"
  shows "insert_fdw e self vals s = (Raise NotImplementedError, s)
       \<and> update_fdw e self rowid newvalues s = (Raise NotImplementedError, s)
       \<and> delete_fdw e self rowid s = (Raise NotImplementedError, s)"
proof -
  from assms have "lower (table_type self) = ''thing-type''" by simp
  then show ?thesis
    by (simp add: insert_fdw_def update_fdw_def delete_fdw_def insert_thing_type_def
        update_thing_type_def delete_thing_type_def)
qed

theorem thing_type_mutations_raise_witness:
  "''thing-type'' = lower (table_type thing_types_table)
   \<and> insert_fdw quiet_backend thing_types_table [''thing_type_name'' \<mapsto> PStr ''sensor''] fresh
       = (Raise NotImplementedError, fresh)
   \<and> update_fdw quiet_backend thing_types_table (PStr ''sensor'')
         [''thing_type_arn'' \<mapsto> PStr ''arn''] fresh
       = (Raise NotImplementedError, fresh)
   \<and> delete_fdw quiet_backend thing_types_table (PStr ''sensor'') fresh
       = (Raise NotImplementedError, fresh)"
proof -
  have k: "''thing-type'' = lower (table_type thing_types_table)"
    by (simp add: thing_types_table_def lower_kinds)
  show ?thesis
    using k thing_type_mutations_raise [OF k] by simp
qed

text \<open>
  C10. On a thing-group table, insert and update return \<open>None\<close> and delete returns
  \<open>None\<close>, without raising, and the state of the run is the one they started in: no
  backend call was made and nothing was logged.
\<close>

theorem thing_group_mutations_return_none:
  assumes "''thing-group'' = lower (table_type self)"
  shows "insert_fdw e self vals s = (Return None, s)
       \<and> update_fdw e self rowid newvalues s = (Return None, s)
       \<and> delete_fdw e self rowid s = (Return PNone, s)"
proof -
  from assms have "lower (table_type self) = ''thing-group''" by simp
  then show ?thesis
    by (simp add: insert_fdw_def update_fdw_def delete_fdw_def)
qed

theorem thing_group_mutations_return_none_witness:
  "''thing-group'' = lower (table_type thing_groups_table)
   \<and> insert_fdw quiet_backend thing_groups_table [''thing_group_name'' \<mapsto> PStr ''floor1''] fresh
       = (Return None, fresh)
   \<and> update_fdw quiet_backend thing_groups_table (PStr ''floor1'')
         [''thing_group_arn'' \<mapsto> PStr ''arn''] fresh
       = (Return None, fresh)
   \<and> delete_fdw quiet_backend thing_groups_table (PStr ''floor1'') fresh = (Return PNone, fresh)"
proof -
  have k: "''thing-group'' = lower (table_type thing_groups_table)"
    by (simp add: thing_groups_table_def lower_kinds)
  show ?thesis
    using k thing_group_mutations_return_none [OF k] by simp
qed

subsection \<open>Evaluation\<close>

lemmas eval_defs = execute_def execute_thing_group_def execute_thing_def execute_thing_type_def
  lower_def lower_char_def thing_group_prefix_step_def
  str_count_def LIKE_WILDCARD_def endswith_def call_def list_call_args_def MAX_RESULTS_def dict_get_def
  fresh_def things_table_def thing_types_table_def thing_groups_table_def

subsection \<open>The prefix filter of thing groups\<close>

lemma like_predicate_is_skipped:
  "operator q = ''~~'' \<Longrightarrow> thing_group_prefix_step p q = Return p"
  using group_name_has_no_wildcard [of "field_name q"]
  by (auto simp: thing_group_prefix_step_def str_count_def LIKE_WILDCARD_def endswith_def)

text \<open>
  C1. The pattern test of the extractor reads the field name, not the value: a predicate
  on the group-name field has a name without wildcard, so the branch that strips the
  wildcard is never taken. At \<open>thing_group_name LIKE 'abc%'\<close> the extractor leaves the
  prefix at \<open>None\<close> and the list call carries no \<open>namePrefixFilter\<close>.
\<close>

theorem thing_group_like_yields_no_filter:
  "thing_group_prefix_scan PNone [like_abc] = Return PNone
   \<and> execute (Suc 0) empty_backend thing_groups_table [like_abc] {} fresh
       = Some (Return (),
               \<lparr>calls = [(ListThingGroups, [(''maxResults'', PInt 250)])],
                logged = [], yielded = []\<rparr>)"
  by (simp add: eval_defs empty_backend_def like_abc_def)

subsection \<open>Insert\<close>

text \<open>
  C3. Insert reads the type name under the key \<open>thing_type\<close>, which is no column of the
  thing table. At values that supply \<open>thing_type_name\<close> the create call carries the
  thing name alone; the values come back unchanged.
\<close>

theorem insert_thing_drops_type_name:
  "map_of import_schema ''thing''
     = Some [''thing_name'', ''thing_type_name'', ''thing_arn'', ''thing_version'',
             ''thing_groups'', ''thing_attributes'', ''thing_shadow_data'']
   \<and> insert_fdw quiet_backend things_table
         [''thing_name'' \<mapsto> PStr ''d1'', ''thing_type_name'' \<mapsto> PStr ''sensor''] fresh
       = (Return (Some [''thing_name'' \<mapsto> PStr ''d1'', ''thing_type_name'' \<mapsto> PStr ''sensor'']),
          \<lparr>calls = [(CreateThing, [(''thingName'', PStr ''d1'')])], logged = [], yielded = []\<rparr>)"
  by (simp add: import_schema_def insert_fdw_def insert_thing_def values_get_def eval_defs quiet_backend_def)

subsection \<open>Update\<close>



subsection \<open>Calls and rows of a run\<close>

lemma grows_refl: "grows P Q s s"
  by (simp add: grows_def)

lemma grows_trans: "grows P Q s s1 \<Longrightarrow> grows P Q s1 s2 \<Longrightarrow> grows P Q s s2"
  unfolding grows_def
proof (elim exE conjE)
  fix cs rs cs' rs'
  assume a: "calls s1 = calls s @ cs" "yielded s1 = yielded s @ rs"
    "\<forall>c\<in>set cs. P c" "\<forall>r\<in>set rs. Q r"
    "calls s2 = calls s1 @ cs'" "yielded s2 = yielded s1 @ rs'"
    "\<forall>c\<in>set cs'. P c" "\<forall>r\<in>set rs'. Q r"
  show "\<exists>cs rs. calls s2 = calls s @ cs \<and> yielded s2 = yielded s @ rs
              \<and> (\<forall>c\<in>set cs. P c) \<and> (\<forall>r\<in>set rs. Q r)"
    by (rule exI [of _ "cs @ cs'"], rule exI [of _ "rs @ rs'"]) (use a in auto)
qed

lemma grows_call: "P (a, args) \<Longrightarrow> call e a args s = (rep, s1) \<Longrightarrow> grows P Q s s1"
  by (auto simp: grows_def call_def Let_def)

lemma grows_yield: "Q r \<Longrightarrow> grows P Q s (yield r s)"
  by (auto simp: grows_def yield_def)

lemma grows_log: "log_to_postgres m l s = (x, s1) \<Longrightarrow> grows P Q s s1"
  by (cases l) (auto simp: grows_def log_to_postgres_def)

lemma grows_handlers: "handlers fmt args l ex s = (x, s1) \<Longrightarrow> grows P Q s s1"
  by (cases ex) (auto simp: handlers_def intro: grows_log)

lemma grows_lookup_failed: "lookup_failed fmt thing ex s = (x, s1) \<Longrightarrow> grows P Q s s1"
  by (auto simp: lookup_failed_def split: prod.splits res.splits intro: grows_handlers)

lemma grows_after_handlers:
  "grows P Q s s0 \<Longrightarrow> after_handlers (x0, s0) v = (x, s1) \<Longrightarrow> grows P Q s s1"
  by (auto simp: after_handlers_def split: res.splits)

lemma grows_shadow:
  assumes "P (GetThingShadow, [(''thingName'', thing)])"
    and "thing_shadow_data e thing s = (x, s1)"
  shows "grows P Q s s1"
proof -
  obtain rep s0 where c: "call e GetThingShadow [(''thingName'', thing)] s = (rep, s0)"
    by (cases "call e GetThingShadow [(''thingName'', thing)] s")
  have g0: "grows P Q s s0" using assms(1) c by (rule grows_call)
  have "grows P Q s0 s1"
    using assms(2) c
    by (auto simp: thing_shadow_data_def Let_def split: reply.splits res.splits if_splits
        intro: grows_lookup_failed grows_refl)
  with g0 show ?thesis by (rule grows_trans)
qed

lemma grows_groups_more:
  assumes "\<forall>args. P (ListThingGroupsForThing, args)"
  shows "thing_groups_more n e thing groups tok s = Some (x, s1) \<Longrightarrow> grows P Q s s1"
proof (induction n arbitrary: groups tok s)
  case 0
  then show ?case by simp
next
  case (Suc n)
  show ?case
  proof (cases "truthy tok")
    case False
    with Suc.prems show ?thesis by (simp add: grows_refl)
  next
    case True
    obtain rep s0 where c: "call e ListThingGroupsForThing
        [(''thingName'', thing), (''maxResults'', PInt MAX_RESULTS), (''nextToken'', tok)] s = (rep, s0)"
      by (cases "call e ListThingGroupsForThing
        [(''thingName'', thing), (''maxResults'', PInt MAX_RESULTS), (''nextToken'', tok)] s")
    have g0: "grows P Q s s0" using assms c by (blast intro: grows_call)
    have "grows P Q s0 s1"
      using Suc.prems True c Suc.IH
      by (auto split: reply.splits res.splits intro: grows_refl)
    with g0 show ?thesis by (rule grows_trans)
  qed
qed

lemma grows_groups_for_thing:
  assumes P: "\<forall>args. P (ListThingGroupsForThing, args)"
    and run: "thing_groups_for_thing n e thing s = Some (x, s1)"
  shows "grows P Q s s1"
proof -
  obtain rep s0 where c: "call e ListThingGroupsForThing
        [(''thingName'', thing), (''maxResults'', PInt MAX_RESULTS)] s = (rep, s0)"
    by (cases "call e ListThingGroupsForThing
        [(''thingName'', thing), (''maxResults'', PInt MAX_RESULTS)] s")
  have g0: "grows P Q s s0" using P c by (blast intro: grows_call)
  have "grows P Q s0 s1"
  proof (cases rep)
    case (Raises ex)
    with run c show ?thesis
      by (auto simp: thing_groups_for_thing_def Let_def intro: grows_lookup_failed)
  next
    case (Response response)
    show ?thesis
    proof (cases "thing_groups_more n e thing (dict_get response ''thingGroups'')
                     (dict_get response ''nextToken'') s0")
      case None
      with run c Response show ?thesis by (simp add: thing_groups_for_thing_def Let_def)
    next
      case (Some a)
      obtain y s2 where a: "a = (y, s2)" by (cases a)
      have g1: "grows P Q s0 s2" using Some a grows_groups_more [OF P] by blast
      have "grows P Q s2 s1"
        using run c Response Some a
        by (auto simp: thing_groups_for_thing_def Let_def split: res.splits
            intro: grows_lookup_failed grows_refl)
      with g1 show ?thesis by (rule grows_trans)
    qed
  qed
  with g0 show ?thesis by (rule grows_trans)
qed

subsection \<open>Rows of things\<close>

lemma set_col_dom:
  "set_col columns k v r = Return r' \<Longrightarrow> dom r' = (if k \<in> columns then insert k (dom r) else dom r)"
  by (auto simp: set_col_def bind_res_def split: if_splits res.splits)

lemma thing_item_cols_dom:
  assumes "thing_item_cols e columns thing r = Return r'"
  shows "dom r' = dom r \<union> (columns \<inter> {''thing_type_name'', ''thing_arn'', ''thing_version'',
                                       ''thing_attributes''})"
proof -
  from assms obtain r1 r2 r3 where
    a: "set_col columns ''thing_type_name'' (py_get thing ''thingTypeName'') r = Return r1"
    and b: "set_col columns ''thing_arn'' (py_get thing ''thingArn'') r1 = Return r2"
    and c: "set_col columns ''thing_version'' (py_get thing ''version'') r2 = Return r3"
    and d: "set_col columns ''thing_attributes''
              (bind_res (py_get thing ''attributes'') (py_dumps (dumps e))) r3 = Return r'"
    by (auto simp: thing_item_cols_def bind_res_def split: res.splits)
  show ?thesis
    using set_col_dom [OF a] set_col_dom [OF b] set_col_dom [OF c] set_col_dom [OF d]
    by (auto split: if_splits)
qed

lemma row_with_groups_dom:
  "row_with_groups n e self columns thing_name s = Some (Return r, s1) \<Longrightarrow>
     dom r = insert (row_id_column self) (columns \<inter> {''thing_groups''})"
  by (auto simp: row_with_groups_def split: if_splits option.splits prod.splits res.splits)

lemma row_with_shadow_dom:
  "row_with_shadow e columns thing_name r0 s = (Return r, s1) \<Longrightarrow>
     dom r = dom r0 \<union> (columns \<inter> {''thing_shadow_data''})"
  by (auto simp: row_with_shadow_def split: if_splits prod.splits res.splits)

lemma thing_row_stages:
  assumes run: "thing_row n e self columns thing s = Some (Return r, s1)"
  shows "\<exists>thing_name r1 sa r2.
        row_with_groups n e self columns thing_name s = Some (Return r1, sa)
        \<and> thing_item_cols e columns thing r1 = Return r2
        \<and> row_with_shadow e columns thing_name r2 sa = (Return r, s1)"
proof (cases "py_get thing ''thingName''")
  case (Raise ex)
  with run show ?thesis by (simp add: thing_row_def)
next
  case (Return thing_name)
  show ?thesis
  proof (cases "row_with_groups n e self columns thing_name s")
    case None
    with run Return show ?thesis by (simp add: thing_row_def)
  next
    case (Some a)
    obtain y sa where a: "a = (y, sa)" by (cases a)
    show ?thesis
    proof (cases y)
      case (Raise ex)
      with run Return Some a show ?thesis by (simp add: thing_row_def)
    next
      case r1: (Return r1)
      show ?thesis
      proof (cases "thing_item_cols e columns thing r1")
        case (Raise ex)
        with run Return Some a r1 show ?thesis by (simp add: thing_row_def)
      next
        case r2: (Return r2)
        with run Return Some a r1
        have "row_with_shadow e columns thing_name r2 sa = (Return r, s1)"
          by (simp add: thing_row_def)
        with Some a r1 r2 show ?thesis by blast
      qed
    qed
  qed
qed

lemma gather_columns:
  "insert i (C \<inter> {a}) \<union> (C \<inter> {b, c, d, f}) \<union> (C \<inter> {g}) = insert i (C \<inter> {b, c, d, a, f, g})"
  by blast

lemma thing_row_dom:
  assumes "thing_row n e self columns thing s = Some (Return r, s1)"
  shows "dom r = insert (row_id_column self) (columns \<inter> thing_columns)"
proof -
  from thing_row_stages [OF assms] obtain thing_name r1 sa r2 where
    a: "row_with_groups n e self columns thing_name s = Some (Return r1, sa)"
    and b: "thing_item_cols e columns thing r1 = Return r2"
    and c: "row_with_shadow e columns thing_name r2 sa = (Return r, s1)"
    by blast
  have "dom r = insert (row_id_column self) (columns \<inter> {''thing_groups''})
          \<union> (columns \<inter> {''thing_type_name'', ''thing_arn'', ''thing_version'',
                          ''thing_attributes''})
          \<union> (columns \<inter> {''thing_shadow_data''})"
    by (simp only: row_with_shadow_dom [OF c] thing_item_cols_dom [OF b]
        row_with_groups_dom [OF a])
  also have "\<dots> = insert (row_id_column self) (columns \<inter> thing_columns)"
    unfolding thing_columns_def by (rule gather_columns)
  finally show ?thesis .
qed

lemma grows_row_with_groups:
  assumes "''thing_groups'' \<in> columns \<longrightarrow> (\<forall>args. P (ListThingGroupsForThing, args))"
    and "row_with_groups n e self columns thing_name s = Some (x, s1)"
  shows "grows P Q s s1"
proof (cases "''thing_groups'' \<in> columns")
  case False
  with assms(2) show ?thesis by (simp add: row_with_groups_def grows_refl)
next
  case True
  with assms(2) obtain y where "thing_groups_for_thing n e thing_name s = Some (y, s1)"
    by (auto simp: row_with_groups_def split: option.splits prod.splits res.splits)
  with assms(1) True show ?thesis by (blast intro: grows_groups_for_thing)
qed

lemma grows_row_with_shadow:
  assumes "''thing_shadow_data'' \<in> columns \<longrightarrow> (\<forall>args. P (GetThingShadow, args))"
    and "row_with_shadow e columns thing_name r s = (x, s1)"
  shows "grows P Q s s1"
proof (cases "''thing_shadow_data'' \<in> columns")
  case False
  with assms(2) show ?thesis by (simp add: row_with_shadow_def grows_refl)
next
  case True
  with assms(2) obtain y where "thing_shadow_data e thing_name s = (y, s1)"
    by (auto simp: row_with_shadow_def split: prod.splits res.splits)
  with assms(1) True show ?thesis by (blast intro: grows_shadow)
qed

lemma grows_thing_row:
  assumes g: "''thing_groups'' \<in> columns \<longrightarrow> (\<forall>args. P (ListThingGroupsForThing, args))"
    and h: "''thing_shadow_data'' \<in> columns \<longrightarrow> (\<forall>args. P (GetThingShadow, args))"
    and run: "thing_row n e self columns thing s = Some (x, s1)"
  shows "grows P Q s s1"
proof (cases "py_get thing ''thingName''")
  case (Raise ex)
  with run show ?thesis by (simp add: thing_row_def grows_refl)
next
  case (Return thing_name)
  from run Return obtain y sa where
    a: "row_with_groups n e self columns thing_name s = Some (y, sa)"
    by (auto simp: thing_row_def split: option.splits)
  have g1: "grows P Q s sa" using g a by (rule grows_row_with_groups)
  have "grows P Q sa s1"
  proof (cases y)
    case (Raise ex)
    with run Return a show ?thesis by (simp add: thing_row_def grows_refl)
  next
    case r1: (Return r1)
    show ?thesis
    proof (cases "thing_item_cols e columns thing r1")
      case (Raise ex)
      with run Return a r1 show ?thesis by (simp add: thing_row_def grows_refl)
    next
      case r2: (Return r2)
      with run Return a r1 have "row_with_shadow e columns thing_name r2 sa = (x, s1)"
        by (simp add: thing_row_def)
      with h show ?thesis by (rule grows_row_with_shadow)
    qed
  qed
  with g1 show ?thesis by (rule grows_trans)
qed

lemma grows_thing_rows:
  assumes g: "''thing_groups'' \<in> columns \<longrightarrow> (\<forall>args. P (ListThingGroupsForThing, args))"
    and h: "''thing_shadow_data'' \<in> columns \<longrightarrow> (\<forall>args. P (GetThingShadow, args))"
  shows "thing_rows n e self columns items s = Some (x, s1) \<Longrightarrow>
     grows P (\<lambda>r. dom r = insert (row_id_column self) (columns \<inter> thing_columns)) s s1"
proof (induction items arbitrary: s)
  case Nil
  then show ?case by (simp add: grows_refl)
next
  case (Cons thing rest)
  let ?Q = "\<lambda>r. dom r = insert (row_id_column self) (columns \<inter> thing_columns)"
  from Cons.prems obtain y sa where a: "thing_row n e self columns thing s = Some (y, sa)"
    by (auto split: option.splits)
  have g1: "grows P ?Q s sa" using g h a by (rule grows_thing_row)
  have "grows P ?Q sa s1"
  proof (cases y)
    case (Raise ex)
    with Cons.prems a show ?thesis by (simp add: grows_refl)
  next
    case (Return r)
    with a have "?Q r" by (simp add: thing_row_dom)
    then have g2: "grows P ?Q sa (yield r sa)" by (rule grows_yield)
    from Cons.prems a Return have "thing_rows n e self columns rest (yield r sa) = Some (x, s1)"
      by simp
    then have "grows P ?Q (yield r sa) s1" by (rule Cons.IH)
    with g2 show ?thesis by (rule grows_trans)
  qed
  with g1 show ?case by (rule grows_trans)
qed

lemma grows_thing_pages:
  assumes g: "''thing_groups'' \<in> columns \<longrightarrow> (\<forall>args. P (ListThingGroupsForThing, args))"
    and h: "''thing_shadow_data'' \<in> columns \<longrightarrow> (\<forall>args. P (GetThingShadow, args))"
    and l: "\<forall>tok. P (ListThings, list_call_args tok ''thingTypeName'' f)"
  shows "thing_pages n e self columns f tok s = Some (x, s1) \<Longrightarrow>
     grows P (\<lambda>r. dom r = insert (row_id_column self) (columns \<inter> thing_columns)) s s1"
proof (induction n arbitrary: tok s)
  case 0
  then show ?case by simp
next
  case (Suc n)
  let ?Q = "\<lambda>r. dom r = insert (row_id_column self) (columns \<inter> thing_columns)"
  obtain rep s0 where
    c: "call e ListThings (list_call_args tok ''thingTypeName'' f) s = (rep, s0)"
    by (cases "call e ListThings (list_call_args tok ''thingTypeName'' f) s")
  have g0: "grows P ?Q s s0" using l c by (blast intro: grows_call)
  have "grows P ?Q s0 s1"
  proof (cases rep)
    case (Raises ex)
    with Suc.prems c show ?thesis by (simp add: grows_refl)
  next
    case (Response response)
    show ?thesis
    proof (cases "py_iter (dict_get response ''things'')")
      case (Raise ex)
      with Suc.prems c Response show ?thesis by (simp add: grows_refl)
    next
      case (Return items)
      from Suc.prems c Response Return obtain y s2 where
        rows: "thing_rows (Suc n) e self columns items s0 = Some (y, s2)"
        by (auto split: option.splits)
      have g1: "grows P ?Q s0 s2" using rows by (rule grows_thing_rows [OF g h])
      have "grows P ?Q s2 s1"
      proof (cases y)
        case (Raise ex)
        with Suc.prems c Response Return rows show ?thesis by (simp add: grows_refl)
      next
        case u: (Return u)
        show ?thesis
        proof (cases "truthy (dict_get response ''nextToken'')")
          case False
          with Suc.prems c Response Return rows u show ?thesis by (simp add: grows_refl)
        next
          case True
          with Suc.prems c Response Return rows u
          have "thing_pages n e self columns f (dict_get response ''nextToken'') s2 = Some (x, s1)"
            by simp
          then show ?thesis by (rule Suc.IH)
        qed
      qed
      with g1 show ?thesis by (rule grows_trans)
    qed
  qed
  with g0 show ?case by (rule grows_trans)
qed

lemma grows_execute_thing:
  assumes g: "''thing_groups'' \<in> columns \<longrightarrow> (\<forall>args. P (ListThingGroupsForThing, args))"
    and h: "''thing_shadow_data'' \<in> columns \<longrightarrow> (\<forall>args. P (GetThingShadow, args))"
    and l: "\<forall>tok. P (ListThings, list_call_args tok ''thingTypeName'' (type_name_scan quals))"
    and run: "execute_thing n e self quals columns s = Some (x, s1)"
  shows "grows P (\<lambda>r. dom r = insert (row_id_column self) (columns \<inter> thing_columns)) s s1"
proof -
  let ?Q = "\<lambda>r. dom r = insert (row_id_column self) (columns \<inter> thing_columns)"
  from run obtain y s0 where
    a: "thing_pages n e self columns (type_name_scan quals) PNone s = Some (y, s0)"
    by (auto simp: execute_thing_def split: option.splits)
  have g0: "grows P ?Q s s0" using a by (rule grows_thing_pages [OF g h l])
  have "grows P ?Q s0 s1"
  proof (cases y)
    case (Return u)
    with run a show ?thesis by (simp add: execute_thing_def grows_refl)
  next
    case (Raise ex)
    with run a have "handlers ''No things from IoT core with ClientError {}'' [] ERROR ex s0 = (x, s1)"
      by (simp add: execute_thing_def)
    then show ?thesis by (rule grows_handlers)
  qed
  with g0 show ?thesis by (rule grows_trans)
qed

subsection \<open>Column gating\<close>

lemma declared_thing_columns:
  "set (declared_columns ''thing'') = insert ''thing_name'' thing_columns"
  by (simp add: declared_columns_def import_schema_def thing_columns_def)

lemma insert_inter_insert: "insert a (C \<inter> insert a T) = insert a (C \<inter> T)"
  by blast

text \<open>
  C6. In a scan of a thing table every row yielded has the identity column, and its columns
  are exactly the identity column and the declared columns that were requested: a column
  not requested is no key of the row. Group memberships are looked up only when the
  \<open>thing_groups\<close> column is requested, and shadows only when the \<open>thing_shadow_data\<close>
  column is; a scan that requests the identity column alone makes neither call.
\<close>

theorem thing_scan_column_gating:
  assumes kind: "''thing'' = lower (table_type self)"
    and rowid: "row_id_column self = ''thing_name''"
    and run: "execute n e self quals columns s = Some (x, s')"
  shows "\<exists>cs rs. calls s' = calls s @ cs \<and> yielded s' = yielded s @ rs
      \<and> (\<forall>r\<in>set rs. ''thing_name'' \<in> dom r
            \<and> dom r = insert ''thing_name'' (columns \<inter> set (declared_columns ''thing'')))
      \<and> (''thing_groups'' \<notin> columns \<longrightarrow> (\<forall>c\<in>set cs. fst c \<noteq> ListThingGroupsForThing))
      \<and> (''thing_shadow_data'' \<notin> columns \<longrightarrow> (\<forall>c\<in>set cs. fst c \<noteq> GetThingShadow))"
proof -
  let ?P = "\<lambda>c::request. (fst c = ListThingGroupsForThing \<longrightarrow> ''thing_groups'' \<in> columns)
                \<and> (fst c = GetThingShadow \<longrightarrow> ''thing_shadow_data'' \<in> columns)"
  let ?Q = "\<lambda>r::row. dom r = insert (row_id_column self) (columns \<inter> thing_columns)"
  from kind run have "execute_thing n e self quals columns s = Some (x, s')"
    by (simp add: execute_def)
  then have "grows ?P ?Q s s'"
    by (intro grows_execute_thing) simp_all
  then obtain cs rs where cs: "calls s' = calls s @ cs" and rs: "yielded s' = yielded s @ rs"
    and P: "\<forall>c\<in>set cs. ?P c" and Q: "\<forall>r\<in>set rs. ?Q r"
    unfolding grows_def by blast
  have d: "insert ''thing_name'' (columns \<inter> thing_columns)
         = insert ''thing_name'' (columns \<inter> set (declared_columns ''thing''))"
    by (simp only: declared_thing_columns insert_inter_insert)
  have Q': "\<forall>r\<in>set rs. ''thing_name'' \<in> dom r
            \<and> dom r = insert ''thing_name'' (columns \<inter> set (declared_columns ''thing''))"
  proof
    fix r assume "r \<in> set rs"
    with Q have "dom r = insert (row_id_column self) (columns \<inter> thing_columns)" by (rule bspec)
    then have "dom r = insert ''thing_name'' (columns \<inter> set (declared_columns ''thing''))"
      by (simp only: rowid d)
    then show "''thing_name'' \<in> dom r
            \<and> dom r = insert ''thing_name'' (columns \<inter> set (declared_columns ''thing''))"
      by (simp only: insertI1 simp_thms)
  qed
  have G: "''thing_groups'' \<notin> columns \<longrightarrow> (\<forall>c\<in>set cs. fst c \<noteq> ListThingGroupsForThing)"
    using P by (meson)
  have H: "''thing_shadow_data'' \<notin> columns \<longrightarrow> (\<forall>c\<in>set cs. fst c \<noteq> GetThingShadow)"
    using P by (meson)
  from cs rs Q' G H show ?thesis
    by (intro exI [of _ cs] exI [of _ rs] conjI)
qed

lemmas run_defs = eval_defs thing_row_def row_with_groups_def row_with_shadow_def
  thing_item_cols_def set_col_def bind_res_def yield_def type_name_scan_def type_name_step_def
  thing_shadow_data_def lookup_failed_def handlers_def log_to_postgres_def

lemma two_things_identity_only:
  "execute (Suc 0) two_things_backend things_table [] {''thing_name''} fresh
     = Some (Return (),
         \<lparr>calls = [(ListThings, [(''maxResults'', PInt 250)])], logged = [],
          yielded = [[''thing_name'' \<mapsto> PStr ''d1''], [''thing_name'' \<mapsto> PStr ''d2'']]\<rparr>)"
  by (simp add: run_defs two_things_backend_def)

theorem thing_scan_column_gating_witness:
  "''thing'' = lower (table_type things_table) \<and> row_id_column things_table = ''thing_name''
   \<and> execute (Suc 0) two_things_backend things_table [] {''thing_name''} fresh
       = Some (Return (),
           \<lparr>calls = [(ListThings, [(''maxResults'', PInt 250)])], logged = [],
            yielded = [[''thing_name'' \<mapsto> PStr ''d1''], [''thing_name'' \<mapsto> PStr ''d2'']]\<rparr>)
   \<and> (\<exists>cs rs. [(ListThings, [(''maxResults'', PInt 250)])] = calls fresh @ cs
         \<and> [[''thing_name'' \<mapsto> PStr ''d1''], [''thing_name'' \<mapsto> PStr ''d2'']]
             = yielded fresh @ rs
         \<and> (\<forall>r\<in>set rs. ''thing_name'' \<in> dom r
               \<and> dom r = insert ''thing_name''
                            ({''thing_name''} \<inter> set (declared_columns ''thing'')))
         \<and> (''thing_groups'' \<notin> {''thing_name''} \<longrightarrow>
               (\<forall>c\<in>set cs. fst c \<noteq> ListThingGroupsForThing))
         \<and> (''thing_shadow_data'' \<notin> {''thing_name''} \<longrightarrow>
               (\<forall>c\<in>set cs. fst c \<noteq> GetThingShadow)))"
proof -
  have k: "''thing'' = lower (table_type things_table)"
    by (simp add: things_table_def lower_kinds)
  have i: "row_id_column things_table = ''thing_name''"
    by (simp add: things_table_def)
  note r = two_things_identity_only
  from thing_scan_column_gating [OF k i r] k i r show ?thesis
    by simp
qed

subsection \<open>The type-name filter of things\<close>

lemma foldl_type_name_skip:
  "\<forall>p\<in>set qs. \<not> (lower (field_name p) = ''thing_type_name'' \<and> operator p = ''='') \<Longrightarrow>
     foldl type_name_step acc qs = acc"
  by (induction qs arbitrary: acc) (auto simp: type_name_step_def)

lemma type_name_scan_last:
  assumes "lower (field_name q) = ''thing_type_name''" and "operator q = ''=''"
    and "\<forall>p\<in>set after. \<not> (lower (field_name p) = ''thing_type_name'' \<and> operator p = ''='')"
  shows "type_name_scan (before @ q # after) = qvalue q"
  using assms by (simp add: type_name_scan_def foldl_type_name_skip type_name_step_def)

lemma list_call_args_filter:
  "map_of (list_call_args tok ''thingTypeName'' f) ''thingTypeName''
     = (if truthy f then Some f else None)"
  by (simp add: list_call_args_def)

text \<open>
  C8, as the code has it. When the predicates of a scan of the thing table contain an
  equality predicate on the type-name field, every list call of the scan carries as
  \<open>thingTypeName\<close> the value of the last such predicate, provided that value is true
  in a condition (a non-empty string); a value that is not (the empty string, \<open>None\<close>)
  gives list calls without the filter.
\<close>

theorem thing_type_name_filter:
  assumes kind: "''thing'' = lower (table_type self)"
    and quals: "quals = before @ q # after"
    and q: "lower (field_name q) = ''thing_type_name''" "operator q = ''=''"
    and last: "\<forall>p\<in>set after. \<not> (lower (field_name p) = ''thing_type_name'' \<and> operator p = ''='')"
    and run: "execute n e self quals columns s = Some (x, s')"
  shows "\<exists>cs. calls s' = calls s @ cs
      \<and> (\<forall>c\<in>set cs. fst c = ListThings \<longrightarrow>
            map_of (snd c) ''thingTypeName''
              = (if truthy (qvalue q) then Some (qvalue q) else None))"
proof -
  let ?P = "\<lambda>c::request. fst c = ListThings \<longrightarrow>
            map_of (snd c) ''thingTypeName'' = (if truthy (qvalue q) then Some (qvalue q) else None)"
  let ?Q = "\<lambda>r::row. dom r = insert (row_id_column self) (columns \<inter> thing_columns)"
  have f: "type_name_scan quals = qvalue q"
    unfolding quals using q last by (rule type_name_scan_last)
  from kind run have "execute_thing n e self quals columns s = Some (x, s')"
    by (simp add: execute_def)
  then have "grows ?P ?Q s s'"
    by (intro grows_execute_thing) (simp_all add: f list_call_args_filter)
  then show ?thesis
    unfolding grows_def by blast
qed

lemma filtered_scan:
  "execute (Suc 0) empty_backend things_table
       [type_is ''valve'', type_is ''sensor'', name_is ''d1''] {} fresh
     = Some (Return (),
         \<lparr>calls = [(ListThings, [(''maxResults'', PInt 250), (''thingTypeName'', PStr ''sensor'')])],
          logged = [], yielded = []\<rparr>)"
  by (simp add: run_defs empty_backend_def type_is_def name_is_def)

theorem thing_type_name_filter_witness:
  "''thing'' = lower (table_type things_table)
   \<and> [type_is ''valve'', type_is ''sensor'', name_is ''d1'']
       = [type_is ''valve''] @ type_is ''sensor'' # [name_is ''d1'']
   \<and> lower (field_name (type_is ''sensor'')) = ''thing_type_name''
   \<and> operator (type_is ''sensor'') = ''=''
   \<and> lower (field_name (name_is ''d1'')) \<noteq> ''thing_type_name''
   \<and> execute (Suc 0) empty_backend things_table
         [type_is ''valve'', type_is ''sensor'', name_is ''d1''] {} fresh
       = Some (Return (),
           \<lparr>calls = [(ListThings,
                       [(''maxResults'', PInt 250), (''thingTypeName'', PStr ''sensor'')])],
            logged = [], yielded = []\<rparr>)
   \<and> (\<exists>cs. [(ListThings, [(''maxResults'', PInt 250), (''thingTypeName'', PStr ''sensor'')])]
            = calls fresh @ cs
         \<and> (\<forall>c\<in>set cs. fst c = ListThings \<longrightarrow>
               map_of (snd c) ''thingTypeName''
                 = (if truthy (qvalue (type_is ''sensor'')) then Some (qvalue (type_is ''sensor''))
                    else None)))"
proof -
  have k: "''thing'' = lower (table_type things_table)"
    by (simp add: things_table_def lower_kinds)
  have a: "[type_is ''valve'', type_is ''sensor'', name_is ''d1'']
       = [type_is ''valve''] @ type_is ''sensor'' # [name_is ''d1'']" by simp
  have f: "lower (field_name (type_is ''sensor'')) = ''thing_type_name''"
    by (simp add: type_is_def lower_def lower_char_def)
  have o: "operator (type_is ''sensor'') = ''=''" by (simp add: type_is_def)
  have l: "\<forall>p\<in>set [name_is ''d1''].
         \<not> (lower (field_name p) = ''thing_type_name'' \<and> operator p = ''='')"
    by (simp add: name_is_def lower_def lower_char_def)
  have l': "lower (field_name (name_is ''d1'')) \<noteq> ''thing_type_name''"
    by (simp add: name_is_def lower_def lower_char_def)
  note r = filtered_scan
  from thing_type_name_filter [OF k a f o l r] k a f o l' r show ?thesis
    by simp
qed

text \<open>
  C8, as stated, fails: with \<open>thing_type_name = ''\<close> the list call carries no filter at
  all, and with \<open>thing_type_name = 'sensor' AND thing_type_name = 'valve'\<close> the filter is
  \<open>valve\<close>, not the value of the first predicate.
\<close>

theorem thing_type_name_filter_counterexample:
  "execute (Suc 0) empty_backend things_table [type_is []] {} fresh
     = Some (Return (),
         \<lparr>calls = [(ListThings, [(''maxResults'', PInt 250)])], logged = [], yielded = []\<rparr>)
   \<and> map_of [(''maxResults'', PInt 250)] ''thingTypeName'' \<noteq> Some (qvalue (type_is []))
   \<and> execute (Suc 0) empty_backend things_table [type_is ''sensor'', type_is ''valve''] {} fresh
     = Some (Return (),
         \<lparr>calls = [(ListThings, [(''maxResults'', PInt 250), (''thingTypeName'', PStr ''valve'')])],
          logged = [], yielded = []\<rparr>)
   \<and> map_of [(''maxResults'', PInt 250), (''thingTypeName'', PStr ''valve'')] ''thingTypeName''
       \<noteq> Some (qvalue (type_is ''sensor''))"
  by (simp add: run_defs empty_backend_def type_is_def)

subsection \<open>The type-name filter of thing types\<close>

text \<open>
  C2. The loop over a page of thing types assigns each type's name to
  \<open>thing_type_name\<close>, the variable the filter is read from. A scan without any
  predicate therefore sends the name of the last type of the first page as
  \<open>thingTypeName\<close> with the call for the second page.
\<close>

theorem thing_type_filter_appears_on_second_page:
  "execute (Suc (Suc 0)) two_type_pages thing_types_table [] {} fresh
     = Some (Return (),
         \<lparr>calls = [(ListThingTypes, [(''maxResults'', PInt 250)]),
                   (ListThingTypes, [(''maxResults'', PInt 250), (''nextToken'', PStr ''page2''),
                                     (''thingTypeName'', PStr ''sensor'')])],
          logged = [],
          yielded = [[''thing_type_name'' \<mapsto> PStr ''sensor''],
                     [''thing_type_name'' \<mapsto> PStr ''valve'']]\<rparr>)"
  by (simp add: run_defs two_type_pages_def thing_type_row_def)

subsection \<open>Shadow lookups that find nothing\<close>

lemma shadow_absent_data:
  assumes "shadow_absent (respond e (calls s @ [(GetThingShadow, [(''thingName'', thing)])]))"
  shows "\<exists>s1. thing_shadow_data e thing s = (Return PNone, s1)
      \<and> calls s1 = calls s @ [(GetThingShadow, [(''thingName'', thing)])]
      \<and> yielded s1 = yielded s
      \<and> (\<forall>l\<in>set (logged s1). l \<in> set (logged s) \<or> fst l = WARNING)"
proof (cases "respond e (calls s @ [(GetThingShadow, [(''thingName'', thing)])])")
  case (Response shadow)
  with assms show ?thesis
    by (simp add: shadow_absent_def thing_shadow_data_def call_def)
next
  case (Raises ex)
  with assms obtain ce where "ex = ClientError ce"
    by (cases ex) (simp_all add: shadow_absent_def)
  with Raises show ?thesis
    by (simp add: thing_shadow_data_def call_def lookup_failed_def handlers_def
        log_to_postgres_def)
qed

text \<open>
  C4, as the code has it. Take a thing whose row is to carry the shadow column, and let the
  shadow lookup be answered by a failure the backend reports or by a response without
  payload. Then the row is made without error and has the shadow column with the value
  \<open>None\<close>; the lookup is the one call added; nothing but a warning is logged; and the
  loop over the page yields the row and goes on with the things after it.
\<close>

theorem shadow_failure_keeps_scan_going:
  assumes sh: "''thing_shadow_data'' \<in> columns"
    and groups: "row_with_groups n e self columns (dict_get d ''thingName'') s
                   = Some (Return r1, sa)"
    and cols: "thing_item_cols e columns (PDict d) r1 = Return r2"
    and absent: "shadow_absent (respond e
                   (calls sa @ [(GetThingShadow, [(''thingName'', dict_get d ''thingName'')])]))"
  shows "\<exists>s1. thing_row n e self columns (PDict d) s
               = Some (Return (r2(''thing_shadow_data'' \<mapsto> PNone)), s1)
      \<and> calls s1 = calls sa @ [(GetThingShadow, [(''thingName'', dict_get d ''thingName'')])]
      \<and> (\<forall>l\<in>set (logged s1). l \<in> set (logged sa) \<or> fst l = WARNING)
      \<and> thing_rows n e self columns (PDict d # rest) s
          = thing_rows n e self columns rest (yield (r2(''thing_shadow_data'' \<mapsto> PNone)) s1)"
proof -
  from shadow_absent_data [OF absent] obtain s1 where
    a: "thing_shadow_data e (dict_get d ''thingName'') sa = (Return PNone, s1)"
    and b: "calls s1 = calls sa @ [(GetThingShadow, [(''thingName'', dict_get d ''thingName'')])]"
    and c: "\<forall>l\<in>set (logged s1). l \<in> set (logged sa) \<or> fst l = WARNING"
    by blast
  have r: "thing_row n e self columns (PDict d) s
             = Some (Return (r2(''thing_shadow_data'' \<mapsto> PNone)), s1)"
    using sh groups cols a by (simp add: thing_row_def row_with_shadow_def)
  then have "thing_rows n e self columns (PDict d # rest) s
          = thing_rows n e self columns rest (yield (r2(''thing_shadow_data'' \<mapsto> PNone)) s1)"
    by simp
  with r b c show ?thesis by blast
qed

theorem shadow_failure_keeps_scan_going_witness:
  "''thing_shadow_data'' \<in> {''thing_shadow_data''}
   \<and> row_with_groups (Suc 0) two_things_backend things_table {''thing_shadow_data''}
         (dict_get [(''thingName'', PStr ''d1'')] ''thingName'') after_list
       = Some (Return [''thing_name'' \<mapsto> PStr ''d1''], after_list)
   \<and> thing_item_cols two_things_backend {''thing_shadow_data''}
         (PDict [(''thingName'', PStr ''d1'')]) [''thing_name'' \<mapsto> PStr ''d1'']
       = Return [''thing_name'' \<mapsto> PStr ''d1'']
   \<and> shadow_absent (respond two_things_backend
         (calls after_list
          @ [(GetThingShadow, [(''thingName'', dict_get [(''thingName'', PStr ''d1'')] ''thingName'')])]))
   \<and> (\<exists>s1. thing_row (Suc 0) two_things_backend things_table {''thing_shadow_data''}
               (PDict [(''thingName'', PStr ''d1'')]) after_list
             = Some (Return [''thing_name'' \<mapsto> PStr ''d1'', ''thing_shadow_data'' \<mapsto> PNone], s1)
         \<and> calls s1 = calls after_list
               @ [(GetThingShadow,
                   [(''thingName'', dict_get [(''thingName'', PStr ''d1'')] ''thingName'')])]
         \<and> (\<forall>l\<in>set (logged s1). l \<in> set (logged after_list) \<or> fst l = WARNING)
         \<and> thing_rows (Suc 0) two_things_backend things_table {''thing_shadow_data''}
               (PDict [(''thingName'', PStr ''d1'')] # [PDict [(''thingName'', PStr ''d2'')]])
               after_list
             = thing_rows (Suc 0) two_things_backend things_table {''thing_shadow_data''}
                 [PDict [(''thingName'', PStr ''d2'')]]
                 (yield [''thing_name'' \<mapsto> PStr ''d1'', ''thing_shadow_data'' \<mapsto> PNone] s1))"
proof -
  have h1: "''thing_shadow_data'' \<in> {''thing_shadow_data''}" by simp
  have h2: "row_with_groups (Suc 0) two_things_backend things_table {''thing_shadow_data''}
         (dict_get [(''thingName'', PStr ''d1'')] ''thingName'') after_list
       = Some (Return [''thing_name'' \<mapsto> PStr ''d1''], after_list)"
    by (simp add: row_with_groups_def things_table_def dict_get_def)
  have h3: "thing_item_cols two_things_backend {''thing_shadow_data''}
         (PDict [(''thingName'', PStr ''d1'')]) [''thing_name'' \<mapsto> PStr ''d1'']
       = Return [''thing_name'' \<mapsto> PStr ''d1'']"
    by (simp add: thing_item_cols_def set_col_def bind_res_def)
  have h4: "shadow_absent (respond two_things_backend
         (calls after_list
          @ [(GetThingShadow, [(''thingName'', dict_get [(''thingName'', PStr ''d1'')] ''thingName'')])]))"
    by (simp add: shadow_absent_def two_things_backend_def after_list_def dict_get_def)
  from shadow_failure_keeps_scan_going [OF h1 h2 h3 h4, of "[PDict [(''thingName'', PStr ''d2'')]]"]
    h1 h2 h3 h4
  show ?thesis by (intro conjI) assumption+
qed

text \<open>
  C4, as stated, fails in one point: the row of a thing whose shadow lookup failed is not
  without the shadow column; it has the column, with the value \<open>None\<close>.
\<close>

theorem shadow_failure_leaves_null_entry:
  "execute (Suc 0) two_things_backend things_table [] {''thing_shadow_data''} fresh
     = Some (Return (),
         \<lparr>calls = [(ListThings, [(''maxResults'', PInt 250)]),
                   (GetThingShadow, [(''thingName'', PStr ''d1'')]),
                   (GetThingShadow, [(''thingName'', PStr ''d2'')])],
          logged = [(WARNING, (''No data in IoT shadow for thing {} with ClientError {}'',
                      [Val (PStr ''d1''), Exn (ClientError ''ResourceNotFoundException'')]))],
          yielded = [[''thing_name'' \<mapsto> PStr ''d1'', ''thing_shadow_data'' \<mapsto> PNone],
                     [''thing_name'' \<mapsto> PStr ''d2'', ''thing_shadow_data'' \<mapsto> PBytes ''on'']]\<rparr>)
   \<and> ''thing_shadow_data'' \<in> dom [''thing_name'' \<mapsto> PStr ''d1'', ''thing_shadow_data'' \<mapsto> PNone]"
  by (simp add: run_defs two_things_backend_def)

subsection \<open>Pagination\<close>









subsection \<open>Pagination of the three scans\<close>



lemma list_exchanges_all:
  "\<forall>c\<in>set xs. fst c = a \<Longrightarrow> length (list_exchanges e a h xs) = length xs"
  by (induction xs arbitrary: h) simp_all






























end
